theory Spec2Isabelle
  imports Main
begin

section \<open>Application import and export (AppImportExportService)\<close>

text \<open>
  A shallow embedding of the service that exports an application with its versions,
  environments, data sources, data source options and data queries, and imports such a
  snapshot again under fresh identifiers.

  Identifiers are the store's UUID strings. A JavaScript value that may be
  \<open>undefined\<close> or \<open>null\<close> is an \<open>option\<close>; a plain object used as a dictionary
  (\<open>dataQueryMapping\<close> and its siblings, each created as \<open>{}\<close>) is a map from
  property names to the values the import assigned.
\<close>

type_synonym ident = string

text \<open>
  \<open>if (x)\<close> on a value that is a string or \<open>undefined\<close>: only \<open>undefined\<close> and the
  empty string are falsy.
\<close>

definition truthy :: "string option \<Rightarrow> bool" where
  "truthy v = (case v of None \<Rightarrow> False | Some s \<Rightarrow> s \<noteq> [])"

subsection \<open>Event bindings and the rewriting of their query references\<close>

text \<open>
  What \<open>event.queryId\<close> holds: an identifier, or, once a dictionary read has stored
  it there, a member inherited from \<open>Object.prototype\<close>, named by the property that
  was read (a built-in function, or the prototype object itself for \<open>__proto__\<close>).
  \<open>undefined\<close> is \<open>None\<close>.
\<close>

datatype query_ref = QueryId ident | Inherited string

record event =
  eventId :: string
  queryId :: "query_ref option"

text \<open>Only \<open>undefined\<close> and the empty string are falsy; functions and objects are truthy.\<close>

definition truthy_ref :: "query_ref option \<Rightarrow> bool" where
  "truthy_ref v =
     (case v of None \<Rightarrow> False | Some (QueryId s) \<Rightarrow> s \<noteq> [] | Some (Inherited n) \<Rightarrow> True)"

text \<open>
  The dictionaries of the import are created as \<open>{}\<close> and so inherit the properties
  of \<open>Object.prototype\<close>, listed here. Reading \<open>dictionary[key]\<close> gives the value
  assigned under the key; for a key never assigned, the inherited member when the key
  names one, and \<open>undefined\<close> otherwise. Assigning a string to \<open>__proto__\<close> creates no
  property, so \<open>__proto__\<close> always reads as the inherited prototype object.
\<close>

definition object_prototype_members :: "string list" where
  "object_prototype_members =
     [''constructor'', ''__defineGetter__'', ''__defineSetter__'', ''hasOwnProperty'',
      ''__lookupGetter__'', ''__lookupSetter__'', ''isPrototypeOf'', ''propertyIsEnumerable'',
      ''toString'', ''valueOf'', ''__proto__'', ''toLocaleString'']"

definition dict_read :: "(ident \<rightharpoonup> ident) \<Rightarrow> string \<Rightarrow> query_ref option" where
  "dict_read dictionary key =
     (if key = ''__proto__'' then Some (Inherited key)
      else (case dictionary key of
              Some v \<Rightarrow> Some (QueryId v)
            | None \<Rightarrow> if key \<in> set object_prototype_members then Some (Inherited key) else None))"

text \<open>
  The property name that a value used as a key is converted to: a string is its own
  name, the prototype object converts to \<open>[object Object]\<close>, and a built-in function
  to its source text, in which the member \<open>constructor\<close> has the name \<open>Object\<close>.
\<close>

definition property_key :: "query_ref \<Rightarrow> string" where
  "property_key v =
     (case v of
        QueryId s \<Rightarrow> s
      | Inherited n \<Rightarrow>
          if n = ''__proto__'' then ''[object Object]''
          else ''function '' @ (if n = ''constructor'' then ''Object'' else n) @ ''() { [native code] }'')"

text \<open>
  The callback that all four \<open>events.map\<close> calls of the service share:
  \<^verbatim>\<open>(event) => { if (event.queryId) { event.queryId = dataQueryMapping[event.queryId]; } return event; }\<close>
  The assignment is unconditional once \<open>queryId\<close> is truthy: what the dictionary read
  gives is what is stored.
\<close>

definition replaceQueryId :: "(ident \<rightharpoonup> ident) \<Rightarrow> event \<Rightarrow> event" where
  "replaceQueryId dataQueryMapping ev =
     (if truthy_ref (queryId ev)
      then ev\<lparr>queryId := dict_read dataQueryMapping (property_key (the (queryId ev)))\<rparr>
      else ev)"

text \<open>
  The options of a data query: the events, when present, and everything else
  (\<open>qo_body\<close>), which the service never looks at.
\<close>

record query_options =
  qo_body :: string
  qo_events :: "event list option"

definition replaceDataQueryOptionsWithNewDataQueryIds ::
  "query_options option \<Rightarrow> (ident \<rightharpoonup> ident) \<Rightarrow> query_options option" where
  "replaceDataQueryOptionsWithNewDataQueryIds options dataQueryMapping =
     (case options of
        None \<Rightarrow> None
      | Some opts \<Rightarrow>
          (case qo_events opts of
             None \<Rightarrow> Some opts
           | Some evs \<Rightarrow>
               Some (opts\<lparr>qo_events := Some (map (replaceQueryId dataQueryMapping) evs)\<rparr>)))"

text \<open>
  A component node of a version definition. The optional chains of the source are
  flattened: \<open>comp_events\<close> is \<open>component?.definition?.events\<close>, \<open>comp_actions\<close> is
  \<open>component?.definition?.properties?.actions?.value\<close> and \<open>comp_columns\<close> is
  \<open>component?.definition?.properties?.columns?.value\<close>, each \<open>None\<close> when any link of
  its chain is missing; \<open>comp_kind\<close> is \<open>component.component\<close>.
\<close>

record action_entry =
  act_label :: string
  act_events :: "event list option"

record column =
  col_name :: string
  col_events :: "event list option"

record component =
  comp_kind :: "string option"
  comp_events :: "event list option"
  comp_actions :: "action_entry list option"
  comp_columns :: "column list option"

text \<open>
  \<open>definition.components\<close> is an object keyed by component id; each entry holds a
  \<open>component\<close> that may be missing. \<open>Object.keys\<close> walks the entries in order.
\<close>

record app_definition =
  components :: "(string \<times> component option) list option"
  globalSettings :: string

definition replaceEvents :: "(ident \<rightharpoonup> ident) \<Rightarrow> event list option \<Rightarrow> event list option" where
  "replaceEvents dataQueryMapping evs =
     (case evs of None \<Rightarrow> None | Some es \<Rightarrow> Some (map (replaceQueryId dataQueryMapping) es))"

text \<open>The body of the loop over \<open>Object.keys(definition.components)\<close>.\<close>

definition replaceWithinComponent :: "(ident \<rightharpoonup> ident) \<Rightarrow> component option \<Rightarrow> component option" where
  "replaceWithinComponent dataQueryMapping node =
     (case node of
        None \<Rightarrow> None
      | Some c \<Rightarrow>
          (let c1 = c\<lparr>comp_events := replaceEvents dataQueryMapping (comp_events c)\<rparr>;
               c2 = (case comp_actions c1 of
                       None \<Rightarrow> c1
                     | Some acts \<Rightarrow>
                         c1\<lparr>comp_actions :=
                              Some (map (\<lambda>a. a\<lparr>act_events := replaceEvents dataQueryMapping (act_events a)\<rparr>)
                                     acts)\<rparr>);
               c3 = (if comp_kind c2 = Some ''Table''
                     then (case comp_columns c2 of
                             None \<Rightarrow> c2
                           | Some cols \<Rightarrow>
                               c2\<lparr>comp_columns :=
                                    Some (map (\<lambda>col. col\<lparr>col_events :=
                                                 replaceEvents dataQueryMapping (col_events col)\<rparr>)
                                           cols)\<rparr>)
                     else c2)
           in Some c3))"

definition replaceDataQueryIdWithinDefinitions ::
  "app_definition option \<Rightarrow> (ident \<rightharpoonup> ident) \<Rightarrow> app_definition option" where
  "replaceDataQueryIdWithinDefinitions definition dataQueryMapping =
     (case definition of
        None \<Rightarrow> None
      | Some d \<Rightarrow>
          (case components d of
             None \<Rightarrow> Some d
           | Some cs \<Rightarrow>
               Some (d\<lparr>components :=
                        Some (map (\<lambda>(k, node). (k, replaceWithinComponent dataQueryMapping node)) cs)\<rparr>)))"

subsection \<open>Entities and the store\<close>

datatype error =
    BadRequestException string
  | TypeError
  | EntityNotFoundError
  | NotFoundException

record user =
  user_id :: ident
  user_organizationId :: ident

record app =
  app_id :: ident
  app_name :: "string option"
  app_organizationId :: ident
  app_userId :: ident
  app_slug :: "string option"
  app_isPublic :: bool
  app_createdAt :: nat
  app_updatedAt :: nat
  app_currentVersionId :: "ident option"

record app_version =
  av_id :: ident
  av_appId :: ident
  av_definition :: "app_definition option"
  av_name :: string
  av_createdAt :: nat
  av_updatedAt :: nat

record app_environment =
  ae_id :: ident
  ae_appVersionId :: "ident option"
  ae_name :: string
  ae_isDefault :: bool
  ae_createdAt :: nat
  ae_updatedAt :: nat

record data_source =
  ds_id :: ident
  ds_name :: string
  ds_kind :: string
  ds_appVersionId :: "ident option"
  ds_createdAt :: nat

text \<open>
  The import writes the data source of an options row under two different properties:
  \<open>dataSourceId\<close> on the legacy path and \<open>dataSource\<close> on the other; the row has both.
  \<open>'o\<close> is the stored representation of an options bag.
\<close>

record 'o data_source_options =
  dso_id :: ident
  dso_environmentId :: "ident option"
  dso_dataSourceId :: "ident option"
  dso_dataSource :: "ident option"
  dso_options :: "'o option"
  dso_createdAt :: nat
  dso_updatedAt :: nat

record data_query =
  dq_id :: ident
  dq_name :: string
  dq_options :: "query_options option"
  dq_kind :: string
  dq_dataSourceId :: "ident option"
  dq_createdAt :: nat

record group_permission =
  gp_id :: ident
  gp_organizationId :: ident
  gp_group :: string

record app_group_permission =
  agp_id :: ident
  agp_groupPermissionId :: ident
  agp_appId :: ident
  agp_read :: bool
  agp_update :: bool
  agp_delete :: bool

text \<open>
  The store: one list of rows per entity, in insertion order. Primary keys are generated
  by the store; \<open>uuid\<close> is its generator, read at the counter \<open>next_uuid\<close>, so that
  what the service relies on (generated keys are new) is a hypothesis on \<open>uuid\<close> where a
  theorem needs it. \<open>clock\<close> is what \<open>new Date()\<close> reads; the model does not advance
  it within one call.
\<close>

record 'o store =
  apps :: "app list"
  app_versions :: "app_version list"
  app_environments :: "app_environment list"
  data_sources :: "data_source list"
  data_source_options :: "'o data_source_options list"
  data_queries :: "data_query list"
  group_permissions :: "group_permission list"
  app_group_permissions :: "app_group_permission list"
  uuid :: "nat \<Rightarrow> ident"
  next_uuid :: nat
  clock :: nat

text \<open>
  \<open>manager.save\<close> of an entity that has no primary key yet inserts it under a
  generated key and returns it with the key filled in. The entity is passed with an
  empty \<open>id\<close>, which the insertion overwrites.
\<close>

definition insert_app :: "app \<Rightarrow> 'o store \<Rightarrow> app \<times> 'o store" where
  "insert_app e s =
     (let e' = e\<lparr>app_id := uuid s (next_uuid s)\<rparr>
      in (e', s\<lparr>apps := apps s @ [e'], next_uuid := Suc (next_uuid s)\<rparr>))"

definition insert_app_version :: "app_version \<Rightarrow> 'o store \<Rightarrow> app_version \<times> 'o store" where
  "insert_app_version e s =
     (let e' = e\<lparr>av_id := uuid s (next_uuid s)\<rparr>
      in (e', s\<lparr>app_versions := app_versions s @ [e'], next_uuid := Suc (next_uuid s)\<rparr>))"

definition insert_app_environment ::
  "app_environment \<Rightarrow> 'o store \<Rightarrow> app_environment \<times> 'o store" where
  "insert_app_environment e s =
     (let e' = e\<lparr>ae_id := uuid s (next_uuid s)\<rparr>
      in (e', s\<lparr>app_environments := app_environments s @ [e'], next_uuid := Suc (next_uuid s)\<rparr>))"

definition insert_data_source :: "data_source \<Rightarrow> 'o store \<Rightarrow> data_source \<times> 'o store" where
  "insert_data_source e s =
     (let e' = e\<lparr>ds_id := uuid s (next_uuid s)\<rparr>
      in (e', s\<lparr>data_sources := data_sources s @ [e'], next_uuid := Suc (next_uuid s)\<rparr>))"

definition insert_data_source_options ::
  "'o data_source_options \<Rightarrow> 'o store \<Rightarrow> 'o data_source_options \<times> 'o store" where
  "insert_data_source_options e s =
     (let e' = e\<lparr>dso_id := uuid s (next_uuid s)\<rparr>
      in (e', s\<lparr>data_source_options := data_source_options s @ [e'],
                next_uuid := Suc (next_uuid s)\<rparr>))"

definition insert_data_query :: "data_query \<Rightarrow> 'o store \<Rightarrow> data_query \<times> 'o store" where
  "insert_data_query e s =
     (let e' = e\<lparr>dq_id := uuid s (next_uuid s)\<rparr>
      in (e', s\<lparr>data_queries := data_queries s @ [e'], next_uuid := Suc (next_uuid s)\<rparr>))"

definition insert_app_group_permission ::
  "app_group_permission \<Rightarrow> 'o store \<Rightarrow> app_group_permission \<times> 'o store" where
  "insert_app_group_permission e s =
     (let e' = e\<lparr>agp_id := uuid s (next_uuid s)\<rparr>
      in (e', s\<lparr>app_group_permissions := app_group_permissions s @ [e'],
                next_uuid := Suc (next_uuid s)\<rparr>))"

text \<open>
  \<open>manager.save\<close> of an entity that already has its primary key writes the entity over
  the row with that key.
\<close>

definition save_app :: "app \<Rightarrow> 'o store \<Rightarrow> 'o store" where
  "save_app e s = s\<lparr>apps := map (\<lambda>r. if app_id r = app_id e then e else r) (apps s)\<rparr>"

definition save_app_version :: "app_version \<Rightarrow> 'o store \<Rightarrow> 'o store" where
  "save_app_version e s =
     s\<lparr>app_versions := map (\<lambda>r. if av_id r = av_id e then e else r) (app_versions s)\<rparr>"

definition save_data_query :: "data_query \<Rightarrow> 'o store \<Rightarrow> 'o store" where
  "save_data_query e s =
     s\<lparr>data_queries := map (\<lambda>r. if dq_id r = dq_id e then e else r) (data_queries s)\<rparr>"

text \<open>
  \<open>manager.update(App, importedApp, { currentVersionId })\<close>: the rows the criteria
  select are taken to be the rows with the entity's primary key.
\<close>

definition update_app_currentVersionId :: "app \<Rightarrow> ident \<Rightarrow> 'o store \<Rightarrow> 'o store" where
  "update_app_currentVersionId importedApp currentVersionId s =
     s\<lparr>apps := map (\<lambda>r. if app_id r = app_id importedApp
                          then r\<lparr>app_currentVersionId := Some currentVersionId\<rparr> else r) (apps s)\<rparr>"

text \<open>
  \<open>manager.update(AppVersion, { id }, { updatedAt: new Date() })\<close>; an \<open>id\<close> that is
  undefined selects no row.
\<close>

definition update_app_version_updatedAt :: "ident option \<Rightarrow> 'o store \<Rightarrow> 'o store" where
  "update_app_version_updatedAt vid s =
     s\<lparr>app_versions := map (\<lambda>r. if Some (av_id r) = vid then r\<lparr>av_updatedAt := clock s\<rparr> else r)
                          (app_versions s)\<rparr>"

subsection \<open>The snapshot document\<close>

text \<open>
  The input of the import, with the fields the service reads. A list that the document
  does not have is \<open>None\<close>; \<open>or_empty\<close> is the source's \<open>appParams?.xs || []\<close>.
\<close>

record snapshot_version =
  sv_id :: ident
  sv_name :: string
  sv_definition :: "app_definition option"

record snapshot_environment =
  se_id :: ident
  se_versionId :: "ident option"
  se_name :: string
  se_isDefault :: bool

record option_entry =
  oe_value :: string
  oe_encrypted :: bool

record snapshot_source =
  ss_id :: ident
  ss_name :: string
  ss_kind :: string
  ss_appVersionId :: "ident option"
  ss_options :: "(string \<times> option_entry) list option"

record 'o snapshot_source_options =
  sso_environmentId :: "ident option"
  sso_dataSource :: "ident option"
  sso_options :: "'o option"

record snapshot_query =
  sq_id :: ident
  sq_name :: string
  sq_kind :: string
  sq_dataSourceId :: "ident option"
  sq_options :: "query_options option"

record 'o snapshot =
  appName :: "string option"
  currentVersionId :: "ident option"
  appVersions :: "snapshot_version list option"
  appEnvironments :: "snapshot_environment list option"
  dataSources :: "snapshot_source list option"
  dataSourceOptions :: "'o snapshot_source_options list option"
  dataQueries :: "snapshot_query list option"

definition or_empty :: "'a list option \<Rightarrow> 'a list" where
  "or_empty xs = (case xs of None \<Rightarrow> [] | Some l \<Rightarrow> l)"

text \<open>The values \<open>appParams: any\<close> can hold, and JavaScript's \<open>typeof\<close> on them.\<close>

datatype 'o jsval =
    JUndefined
  | JNull
  | JBoolean bool
  | JNumber int
  | JString string
  | JObject "'o snapshot"

fun typeof :: "'o jsval \<Rightarrow> string" where
  "typeof JUndefined = ''undefined''"
| "typeof JNull = ''object''"
| "typeof (JBoolean b) = ''boolean''"
| "typeof (JNumber n) = ''number''"
| "typeof (JString s) = ''string''"
| "typeof (JObject p) = ''object''"

text \<open>
  Reading a property of the value: \<open>null\<close> and \<open>undefined\<close> throw a TypeError, a
  primitive has none of the snapshot's properties, an object is read as it is.
\<close>

definition empty_snapshot :: "'o snapshot" where
  "empty_snapshot = \<lparr>appName = None, currentVersionId = None, appVersions = None,
     appEnvironments = None, dataSources = None, dataSourceOptions = None, dataQueries = None\<rparr>"

fun properties :: "'o jsval \<Rightarrow> error + 'o snapshot" where
  "properties JUndefined = Inl TypeError"
| "properties JNull = Inl TypeError"
| "properties (JObject p) = Inr p"
| "properties v = Inr empty_snapshot"

text \<open>
  \<open>mapping[key]\<close> where the key is a reference of the snapshot and the value read is
  stored as a reference of a new row. A key that is undefined reads the property named
  \<open>undefined\<close>. The references of a row are identifiers, so these reads are modelled
  for keys that name no member of \<open>Object.prototype\<close>.
\<close>

definition lookup :: "(ident \<rightharpoonup> 'a) \<Rightarrow> ident option \<Rightarrow> 'a option" where
  "lookup m k = m (case k of None \<Rightarrow> ''undefined'' | Some i \<Rightarrow> i)"

subsection \<open>Collaborators that are not part of the service\<close>

text \<open>
  Modelled from the spec: \<open>dbTransactionWrap\<close> (src/helpers/utils.helper, not among
  the sources) runs its body as one atomic unit of work, all or nothing: when the body
  fails, nothing it wrote is kept.
\<close>

definition dbTransactionWrap ::
  "('o store \<Rightarrow> error + 'a \<times> 'o store) \<Rightarrow> 'o store \<Rightarrow> (error + 'a) \<times> 'o store" where
  "dbTransactionWrap body s =
     (case body s of Inl e \<Rightarrow> (Inl e, s) | Inr (r, s') \<Rightarrow> (Inr r, s'))"

text \<open>
  \<open>dataSourcesService.parseOptionsForCreate\<close> is a parameter of the import
  (\<open>parseOptionsForCreate\<close> below): it turns the key/value/encrypted triples into the
  stored representation \<open>'o\<close>.
\<close>

record key_value_pair =
  kv_key :: string
  kv_value :: string
  kv_encrypted :: bool

definition convertToArrayOfKeyValuePairs :: "(string \<times> option_entry) list \<Rightarrow> key_value_pair list" where
  "convertToArrayOfKeyValuePairs options =
     map (\<lambda>(key, entry). \<lparr>kv_key = key, kv_value = oe_value entry, kv_encrypted = oe_encrypted entry\<rparr>)
       options"

subsection \<open>Import\<close>

text \<open>
  The local variables of \<open>buildImportedAppAssociations\<close> together with the store the
  transaction works on. \<open>queries\<close> is the array \<open>dataQueries\<close>: the entity created
  for a query is given the query's \<open>options\<close> object itself, and the rewriting
  assigns to the events of that object, so the array's options change with it.
\<close>

record 'o import_state =
  dataSourceMapping :: "ident \<rightharpoonup> ident"
  dataSourceOptionsMapping :: "ident \<rightharpoonup> 'o"
  dataQueryMapping :: "ident \<rightharpoonup> ident"
  appVersionMapping :: "ident \<rightharpoonup> ident"
  appEnvironmentMapping :: "ident \<rightharpoonup> ident"
  appDefaultEnvironmentMapping :: "ident \<rightharpoonup> ident"
  queries :: "snapshot_query list"
  db :: "'o store"

definition createImportedAppForUser ::
  "'o jsval \<Rightarrow> user \<Rightarrow> 'o store \<Rightarrow> error + app \<times> 'o store" where
  "createImportedAppForUser appParams user s =
     (case properties appParams of
        Inl e \<Rightarrow> Inl e
      | Inr p \<Rightarrow>
          Inr (insert_app
                 \<lparr>app_id = [], app_name = appName p,
                  app_organizationId = user_organizationId user, app_userId = user_id user,
                  app_slug = None, app_isPublic = False,
                  app_createdAt = clock s, app_updatedAt = clock s,
                  app_currentVersionId = None\<rparr> s))"

text \<open>The body of the first loop over \<open>appVersions\<close> (create new app versions).\<close>

definition createAppVersion ::
  "app \<Rightarrow> 'o snapshot \<Rightarrow> snapshot_version \<Rightarrow> 'o import_state \<Rightarrow> 'o import_state" where
  "createAppVersion importedApp appParams appVersion st =
     (let (version, s1) =
            insert_app_version
              \<lparr>av_id = [], av_appId = app_id importedApp,
               av_definition = sv_definition appVersion, av_name = sv_name appVersion,
               av_createdAt = clock (db st), av_updatedAt = clock (db st)\<rparr> (db st);
          st1 = st\<lparr>db := s1\<rparr>;
          st2 = (if or_empty (appEnvironments appParams) = []
                 then (let (env, s2) =
                             insert_app_environment
                               \<lparr>ae_id = [], ae_appVersionId = Some (av_id version),
                                ae_name = ''production'', ae_isDefault = True,
                                ae_createdAt = clock (db st1), ae_updatedAt = clock (db st1)\<rparr>
                               (db st1)
                       in st1\<lparr>db := s2,
                              appDefaultEnvironmentMapping :=
                                (appDefaultEnvironmentMapping st1)(sv_id appVersion \<mapsto> ae_id env)\<rparr>)
                 else st1);
          st3 = (if Some (sv_id appVersion) = currentVersionId appParams
                 then st2\<lparr>db := update_app_currentVersionId importedApp (av_id version) (db st2)\<rparr>
                 else st2)
      in st3\<lparr>appVersionMapping := (appVersionMapping st3)(sv_id appVersion \<mapsto> av_id version)\<rparr>)"

text \<open>The loops inside the second loop over \<open>appVersions\<close>, one definition per loop body.\<close>

definition associateAppEnvironment ::
  "snapshot_environment \<Rightarrow> 'o import_state \<Rightarrow> 'o import_state" where
  "associateAppEnvironment appEnvironment st =
     (let (env, s1) =
            insert_app_environment
              \<lparr>ae_id = [],
               ae_appVersionId = lookup (appVersionMapping st) (se_versionId appEnvironment),
               ae_name = se_name appEnvironment, ae_isDefault = se_isDefault appEnvironment,
               ae_createdAt = clock (db st), ae_updatedAt = clock (db st)\<rparr> (db st)
      in st\<lparr>db := s1,
            appEnvironmentMapping := (appEnvironmentMapping st)(se_id appEnvironment \<mapsto> ae_id env)\<rparr>)"

definition associateDataSource ::
  "(key_value_pair list \<Rightarrow> 'o) \<Rightarrow> snapshot_version \<Rightarrow> snapshot_source \<Rightarrow>
   'o import_state \<Rightarrow> 'o import_state" where
  "associateDataSource parseOptionsForCreate appVersion source st =
     (let st1 = (case ss_options source of
                   None \<Rightarrow> st
                 | Some options \<Rightarrow>
                     st\<lparr>dataSourceOptionsMapping :=
                          (dataSourceOptionsMapping st)
                            (ss_id source \<mapsto>
                               parseOptionsForCreate (convertToArrayOfKeyValuePairs options))\<rparr>)
      in if truthy (ss_appVersionId source) \<and> ss_appVersionId source \<noteq> Some (sv_id appVersion)
         then st1
         else (let (newSource, s1) =
                     insert_data_source
                       \<lparr>ds_id = [], ds_name = ss_name source, ds_kind = ss_kind source,
                        ds_appVersionId = appVersionMapping st1 (sv_id appVersion),
                        ds_createdAt = clock (db st1)\<rparr> (db st1)
               in st1\<lparr>db := s1,
                      dataSourceMapping := (dataSourceMapping st1)(ss_id source \<mapsto> ds_id newSource)\<rparr>))"

text \<open>
  The loop guarded by \<open>!dataSourceOptions?.length && dataSourceOptionsMapping\<close>; the
  second conjunct is an object and so always truthy.
\<close>

definition createLegacyDataSourceOptions ::
  "snapshot_version \<Rightarrow> snapshot_source \<Rightarrow> 'o import_state \<Rightarrow> 'o import_state" where
  "createLegacyDataSourceOptions appVersion source st =
     (let (dsOption, s1) =
            insert_data_source_options
              \<lparr>dso_id = [],
               dso_environmentId = appDefaultEnvironmentMapping st (sv_id appVersion),
               dso_dataSourceId = Some (ss_id source),
               dso_dataSource = None,
               dso_options = dataSourceOptionsMapping st (ss_id source),
               dso_createdAt = clock (db st), dso_updatedAt = clock (db st)\<rparr> (db st)
      in st\<lparr>db := s1\<rparr>)"

definition associateDataSourceOptions ::
  "'o snapshot_source_options \<Rightarrow> 'o import_state \<Rightarrow> 'o import_state" where
  "associateDataSourceOptions dataSourceOption st =
     (let (dsOption, s1) =
            insert_data_source_options
              \<lparr>dso_id = [],
               dso_environmentId =
                 lookup (appEnvironmentMapping st) (sso_environmentId dataSourceOption),
               dso_dataSourceId = None,
               dso_dataSource = lookup (dataSourceMapping st) (sso_dataSource dataSourceOption),
               dso_options = sso_options dataSourceOption,
               dso_createdAt = clock (db st), dso_updatedAt = clock (db st)\<rparr> (db st)
      in st\<lparr>db := s1\<rparr>)"

definition createDataQuery ::
  "snapshot_query \<Rightarrow> 'o import_state \<times> data_query list \<Rightarrow> 'o import_state \<times> data_query list" where
  "createDataQuery query acc =
     (let (st, newDataQueries) = acc;
          (newQuery, s1) =
            insert_data_query
              \<lparr>dq_id = [], dq_name = sq_name query, dq_options = sq_options query,
               dq_kind = sq_kind query,
               dq_dataSourceId = lookup (dataSourceMapping st) (sq_dataSourceId query),
               dq_createdAt = clock (db st)\<rparr> (db st)
      in (st\<lparr>db := s1, dataQueryMapping := (dataQueryMapping st)(sq_id query \<mapsto> dq_id newQuery)\<rparr>,
          newDataQueries @ [newQuery]))"

definition remapDataQuery :: "data_query \<Rightarrow> 'o import_state \<Rightarrow> 'o import_state" where
  "remapDataQuery newQuery st =
     st\<lparr>db := save_data_query
                (newQuery\<lparr>dq_options :=
                            replaceDataQueryOptionsWithNewDataQueryIds (dq_options newQuery)
                              (dataQueryMapping st)\<rparr>) (db st)\<rparr>"

text \<open>
  \<open>manager.findOne(AppVersion, { where: { id } })\<close>, the rewriting of the definition
  and the save; reading \<open>version.definition\<close> of a version that was not found throws.
\<close>

definition remapVersionDefinition ::
  "snapshot_version \<Rightarrow> 'o import_state \<Rightarrow> error + 'o import_state" where
  "remapVersionDefinition appVersion st =
     (case find (\<lambda>r. Some (av_id r) = appVersionMapping st (sv_id appVersion))
             (app_versions (db st)) of
        None \<Rightarrow> Inl TypeError
      | Some version \<Rightarrow>
          Inr (st\<lparr>db := save_app_version
                          (version\<lparr>av_definition :=
                                     replaceDataQueryIdWithinDefinitions (av_definition version)
                                       (dataQueryMapping st)\<rparr>) (db st)\<rparr>))"

text \<open>The body of the second loop over \<open>appVersions\<close>.\<close>

definition associateAppVersion ::
  "(key_value_pair list \<Rightarrow> 'o) \<Rightarrow> 'o snapshot \<Rightarrow> snapshot_version \<Rightarrow>
   'o import_state \<Rightarrow> error + 'o import_state" where
  "associateAppVersion parseOptionsForCreate appParams appVersion st =
     (let st1 = fold associateAppEnvironment (or_empty (appEnvironments appParams)) st;
          st2 = fold (associateDataSource parseOptionsForCreate appVersion)
                  (or_empty (dataSources appParams)) st1;
          st3 = (if or_empty (dataSourceOptions appParams) = []
                 then fold (createLegacyDataSourceOptions appVersion)
                        (or_empty (dataSources appParams)) st2
                 else st2);
          st4 = fold associateDataSourceOptions (or_empty (dataSourceOptions appParams)) st3;
          (st5, newDataQueries) = fold createDataQuery (queries st4) (st4, []);
          st6 = fold remapDataQuery newDataQueries st5;
          st7 = st6\<lparr>queries :=
                     map (\<lambda>query. query\<lparr>sq_options :=
                                     replaceDataQueryOptionsWithNewDataQueryIds (sq_options query)
                                       (dataQueryMapping st6)\<rparr>) (queries st6)\<rparr>
      in remapVersionDefinition appVersion st7)"

fun forEach :: "('a \<Rightarrow> 's \<Rightarrow> error + 's) \<Rightarrow> 'a list \<Rightarrow> 's \<Rightarrow> error + 's" where
  "forEach body [] st = Inr st"
| "forEach body (x # xs) st =
     (case body x st of Inl e \<Rightarrow> Inl e | Inr st' \<Rightarrow> forEach body xs st')"

definition setEditingVersionAsLatestVersion ::
  "(ident \<rightharpoonup> ident) \<Rightarrow> snapshot_version list \<Rightarrow> 'o store \<Rightarrow> 'o store" where
  "setEditingVersionAsLatestVersion mapping versions s =
     (if versions = [] then s
      else update_app_version_updatedAt (mapping (sv_id (last versions))) s)"

definition buildImportedAppAssociations ::
  "(key_value_pair list \<Rightarrow> 'o) \<Rightarrow> app \<Rightarrow> 'o snapshot \<Rightarrow> 'o store \<Rightarrow> error + 'o store" where
  "buildImportedAppAssociations parseOptionsForCreate importedApp appParams s =
     (let st0 = \<lparr>dataSourceMapping = Map.empty, dataSourceOptionsMapping = Map.empty,
                 dataQueryMapping = Map.empty, appVersionMapping = Map.empty,
                 appEnvironmentMapping = Map.empty, appDefaultEnvironmentMapping = Map.empty,
                 queries = or_empty (dataQueries appParams), db = s\<rparr>;
          st1 = fold (createAppVersion importedApp appParams) (or_empty (appVersions appParams)) st0
      in case forEach (associateAppVersion parseOptionsForCreate appParams)
                (or_empty (appVersions appParams)) st1 of
           Inl e \<Rightarrow> Inl e
         | Inr st2 \<Rightarrow>
             Inr (setEditingVersionAsLatestVersion (appVersionMapping st2)
                    (or_empty (appVersions appParams)) (db st2)))"

text \<open>
  The loop over the organization's admin groups returns from inside its first
  iteration.
\<close>

definition createAdminGroupPermissions ::
  "app \<Rightarrow> 'o store \<Rightarrow> app_group_permission option \<times> 'o store" where
  "createAdminGroupPermissions app s =
     (case filter (\<lambda>g. gp_organizationId g = app_organizationId app \<and> gp_group g = ''admin'')
             (group_permissions s) of
        [] \<Rightarrow> (None, s)
      | groupPermission # rest \<Rightarrow>
          (let (saved, s1) =
                 insert_app_group_permission
                   \<lparr>agp_id = [], agp_groupPermissionId = gp_id groupPermission,
                    agp_appId = app_id app,
                    agp_read = True, agp_update = True, agp_delete = True\<rparr> s
           in (Some saved, s1)))"

text \<open>
  The three steps inside the transaction of \<open>import\<close>, and \<open>import\<close> itself (named
  \<open>import_app\<close> here). After the transaction the entity is reloaded by its key, which
  fails when the row is gone, given its own id as slug, and saved.
\<close>

definition importTransaction ::
  "(key_value_pair list \<Rightarrow> 'o) \<Rightarrow> user \<Rightarrow> 'o jsval \<Rightarrow> 'o store \<Rightarrow> error + app \<times> 'o store" where
  "importTransaction parseOptionsForCreate user appParams s =
     (case createImportedAppForUser appParams user s of
        Inl e \<Rightarrow> Inl e
      | Inr (importedApp, s1) \<Rightarrow>
          (case properties appParams of
             Inl e \<Rightarrow> Inl e
           | Inr p \<Rightarrow>
               (case buildImportedAppAssociations parseOptionsForCreate importedApp p s1 of
                  Inl e \<Rightarrow> Inl e
                | Inr s2 \<Rightarrow> Inr (importedApp, snd (createAdminGroupPermissions importedApp s2)))))"

definition import_app ::
  "(key_value_pair list \<Rightarrow> 'o) \<Rightarrow> user \<Rightarrow> 'o jsval \<Rightarrow> 'o store \<Rightarrow> (error + app) \<times> 'o store" where
  "import_app parseOptionsForCreate user appParams s =
     (if typeof appParams \<noteq> ''object''
      then (Inl (BadRequestException ''Invalid params for app import''), s)
      else (case dbTransactionWrap (importTransaction parseOptionsForCreate user appParams) s of
              (Inl e, s1) \<Rightarrow> (Inl e, s1)
            | (Inr importedApp, s1) \<Rightarrow>
                (case find (\<lambda>r. app_id r = app_id importedApp) (apps s1) of
                   None \<Rightarrow> (Inl EntityNotFoundError, s1)
                 | Some reloaded \<Rightarrow>
                     (let saved = reloaded\<lparr>app_slug := Some (app_id reloaded)\<rparr>
                      in (Inr saved, save_app saved s1)))))"

subsection \<open>Export\<close>

text \<open>
  What \<open>export\<close> returns: the application entity with the five arrays attached to it.
\<close>

record 'o exported_app =
  ex_app :: app
  ex_dataQueries :: "data_query list"
  ex_dataSources :: "data_source list"
  ex_appVersions :: "app_version list"
  ex_appEnvironments :: "app_environment list"
  ex_dataSourceOptions :: "'o data_source_options list"

definition is_in :: "ident option \<Rightarrow> ident list \<Rightarrow> bool" where
  "is_in v ids = (case v of None \<Rightarrow> False | Some i \<Rightarrow> i \<in> set ids)"

text \<open>
  \<open>export\<close> (named \<open>export_app\<close> here). \<open>getOne\<close> gives no entity when no row belongs
  to the id (\<open>appId\<close>) and the organization, and \<open>appToExport.id\<close> then throws a TypeError. The
  last query names the placeholder \<open>:environmentId\<close> and binds \<open>versionId\<close>; what the
  store answers to it is the parameter \<open>optionsQuery\<close>, given the environments' ids.
  In the other queries \<open>IN\<close> is membership in the list of ids (a missing reference is
  in no list), and \<open>orderBy\<close> is a stable sort of the rows in insertion order.
\<close>

definition export_app ::
  "(ident list \<Rightarrow> 'o store \<Rightarrow> error + 'o data_source_options list) \<Rightarrow>
   user \<Rightarrow> ident \<Rightarrow> 'o store \<Rightarrow> error + 'o exported_app" where
  "export_app optionsQuery user appId s =
     fst (dbTransactionWrap
       (\<lambda>m. case find (\<lambda>r. app_id r = appId \<and> app_organizationId r = user_organizationId user) (apps m) of
               None \<Rightarrow> Inl TypeError
             | Some appToExport \<Rightarrow>
                 (let versions = sort_key av_createdAt
                                   (filter (\<lambda>r. av_appId r = app_id appToExport) (app_versions m));
                      sources = sort_key ds_createdAt
                                  (filter (\<lambda>r. is_in (ds_appVersionId r) (map av_id versions))
                                     (data_sources m));
                      qs = sort_key dq_createdAt
                             (filter (\<lambda>r. is_in (dq_dataSourceId r) (map ds_id sources))
                                (data_queries m));
                      environments = sort_key ae_createdAt
                                       (filter (\<lambda>r. is_in (ae_appVersionId r) (map av_id versions))
                                          (app_environments m))
                  in (case optionsQuery (map ae_id environments) m of
                        Inl e \<Rightarrow> Inl e
                      | Inr options \<Rightarrow>
                          Inr (\<lparr>ex_app = appToExport, ex_dataQueries = qs,
                                ex_dataSources = sources, ex_appVersions = versions,
                                ex_appEnvironments = environments,
                                ex_dataSourceOptions = options\<rparr>, m)))) s)"

text \<open>
  Modelled from the spec: the snapshot document that an exported application is
  serialised to (the entity declarations are not among the sources), property by
  property as the document's schema names them. A stored data source has no inline
  options.
\<close>

definition to_snapshot :: "'o exported_app \<Rightarrow> 'o snapshot" where
  "to_snapshot e =
     \<lparr>appName = app_name (ex_app e),
      currentVersionId = app_currentVersionId (ex_app e),
      appVersions =
        Some (map (\<lambda>r. \<lparr>sv_id = av_id r, sv_name = av_name r, sv_definition = av_definition r\<rparr>)
               (ex_appVersions e)),
      appEnvironments =
        Some (map (\<lambda>r. \<lparr>se_id = ae_id r, se_versionId = ae_appVersionId r, se_name = ae_name r,
                         se_isDefault = ae_isDefault r\<rparr>) (ex_appEnvironments e)),
      dataSources =
        Some (map (\<lambda>r. \<lparr>ss_id = ds_id r, ss_name = ds_name r, ss_kind = ds_kind r,
                         ss_appVersionId = ds_appVersionId r, ss_options = None\<rparr>)
               (ex_dataSources e)),
      dataSourceOptions =
        Some (map (\<lambda>r. \<lparr>sso_environmentId = dso_environmentId r, sso_dataSource = dso_dataSource r,
                         sso_options = dso_options r\<rparr>) (ex_dataSourceOptions e)),
      dataQueries =
        Some (map (\<lambda>r. \<lparr>sq_id = dq_id r, sq_name = dq_name r, sq_kind = dq_kind r,
                         sq_dataSourceId = dq_dataSourceId r, sq_options = dq_options r\<rparr>)
               (ex_dataQueries e))\<rparr>"

subsection \<open>Vocabulary of the theorems\<close>

text \<open>
  Every identifier a store mentions, as a primary key or as a reference, and the
  assumption the service makes of the store's generator: the keys it hands out from now
  on are pairwise different and none of them is mentioned in the store yet.
\<close>

definition keys_in_use :: "'o store \<Rightarrow> ident set" where
  "keys_in_use s =
     set (map app_id (apps s)) \<union> set (List.map_filter app_currentVersionId (apps s)) \<union>
     set (map av_id (app_versions s)) \<union> set (map av_appId (app_versions s)) \<union>
     set (map ae_id (app_environments s)) \<union>
     set (List.map_filter ae_appVersionId (app_environments s)) \<union>
     set (map ds_id (data_sources s)) \<union> set (List.map_filter ds_appVersionId (data_sources s)) \<union>
     set (map dso_id (data_source_options s)) \<union>
     set (List.map_filter dso_environmentId (data_source_options s)) \<union>
     set (List.map_filter dso_dataSourceId (data_source_options s)) \<union>
     set (List.map_filter dso_dataSource (data_source_options s)) \<union>
     set (map dq_id (data_queries s)) \<union> set (List.map_filter dq_dataSourceId (data_queries s)) \<union>
     set (map gp_id (group_permissions s)) \<union>
     set (map agp_id (app_group_permissions s)) \<union>
     set (map agp_groupPermissionId (app_group_permissions s)) \<union>
     set (map agp_appId (app_group_permissions s))"

definition fresh_keys :: "'o store \<Rightarrow> bool" where
  "fresh_keys s \<longleftrightarrow>
     inj_on (uuid s) {next_uuid s ..} \<and> (\<forall>k \<ge> next_uuid s. uuid s k \<notin> keys_in_use s)"






text \<open>
  The definition stored for a version key: that of the row that a lookup by the key finds.
\<close>

definition stored_definition :: "'o store \<Rightarrow> ident \<Rightarrow> app_definition option option" where
  "stored_definition s vid = map_option av_definition (find (\<lambda>r. av_id r = vid) (app_versions s))"




subsection \<open>Example data\<close>

text \<open>
  A store with one application of organization \<open>org1\<close> that has two versions, each
  with its environment, one data source with its options and one query; two admin groups
  for \<open>org1\<close>; and a generator whose keys start with \<open>new-\<close>.
\<close>

definition demo_uuid :: "nat \<Rightarrow> ident" where
  "demo_uuid n = ''new-'' @ replicate n (CHR ''i'')"

definition demo_store :: "key_value_pair list store" where
  "demo_store =
     \<lparr>apps = [\<lparr>app_id = ''a1'', app_name = Some ''Orders'', app_organizationId = ''org1'',
               app_userId = ''u1'', app_slug = Some ''a1'', app_isPublic = False,
               app_createdAt = 1, app_updatedAt = 1, app_currentVersionId = Some ''v2''\<rparr>],
      app_versions = [\<lparr>av_id = ''v1'', av_appId = ''a1'', av_definition = None, av_name = ''v1'',
                       av_createdAt = 1, av_updatedAt = 1\<rparr>,
                      \<lparr>av_id = ''v2'', av_appId = ''a1'', av_definition = None, av_name = ''v2'',
                       av_createdAt = 2, av_updatedAt = 2\<rparr>],
      app_environments = [\<lparr>ae_id = ''e1'', ae_appVersionId = Some ''v1'', ae_name = ''production'',
                           ae_isDefault = True, ae_createdAt = 1, ae_updatedAt = 1\<rparr>,
                          \<lparr>ae_id = ''e2'', ae_appVersionId = Some ''v2'', ae_name = ''production'',
                           ae_isDefault = True, ae_createdAt = 2, ae_updatedAt = 2\<rparr>],
      data_sources = [\<lparr>ds_id = ''s1'', ds_name = ''db'', ds_kind = ''postgresql'',
                       ds_appVersionId = Some ''v1'', ds_createdAt = 1\<rparr>],
      data_source_options = [\<lparr>dso_id = ''o1'', dso_environmentId = Some ''e1'',
                              dso_dataSourceId = None, dso_dataSource = Some ''s1'',
                              dso_options = Some [], dso_createdAt = 1, dso_updatedAt = 1\<rparr>],
      data_queries = [\<lparr>dq_id = ''q1'', dq_name = ''list'', dq_options = None,
                       dq_kind = ''postgresql'', dq_dataSourceId = Some ''s1'', dq_createdAt = 1\<rparr>],
      group_permissions = [\<lparr>gp_id = ''g1'', gp_organizationId = ''org1'', gp_group = ''admin''\<rparr>,
                           \<lparr>gp_id = ''g2'', gp_organizationId = ''org1'', gp_group = ''admin''\<rparr>,
                           \<lparr>gp_id = ''g3'', gp_organizationId = ''org2'', gp_group = ''admin''\<rparr>],
      app_group_permissions = [\<lparr>agp_id = ''p1'', agp_groupPermissionId = ''g1'', agp_appId = ''a1'',
                                agp_read = True, agp_update = True, agp_delete = True\<rparr>],
      uuid = demo_uuid, next_uuid = 0, clock = 5\<rparr>"

definition demo_user :: user where
  "demo_user = \<lparr>user_id = ''u1'', user_organizationId = ''org1''\<rparr>"

definition other_user :: user where
  "other_user = \<lparr>user_id = ''u2'', user_organizationId = ''org2''\<rparr>"

text \<open>The options query answered as if its placeholder were bound to the environments' ids.\<close>

definition demo_optionsQuery ::
  "ident list \<Rightarrow> 'o store \<Rightarrow> error + 'o data_source_options list" where
  "demo_optionsQuery environmentIds s =
     Inr (sort_key dso_createdAt
            (filter (\<lambda>r. is_in (dso_environmentId r) environmentIds) (data_source_options s)))"

text \<open>
  A legacy snapshot: one version, no environments, no standalone options, one data
  source with inline options, declared current version \<open>v1\<close>.
\<close>

definition legacy_snapshot :: "key_value_pair list snapshot" where
  "legacy_snapshot =
     \<lparr>appName = Some ''Legacy'', currentVersionId = Some ''v1'',
      appVersions = Some [\<lparr>sv_id = ''v1'', sv_name = ''v1'', sv_definition = None\<rparr>],
      appEnvironments = None,
      dataSources = Some [\<lparr>ss_id = ''s1'', ss_name = ''db'', ss_kind = ''postgresql'',
                          ss_appVersionId = None,
                          ss_options = Some [(''host'', \<lparr>oe_value = ''a'', oe_encrypted = False\<rparr>)]\<rparr>],
      dataSourceOptions = None,
      dataQueries = None\<rparr>"


text \<open>The options parser of the examples keeps the triples as they are.\<close>

definition demo_parse :: "key_value_pair list \<Rightarrow> key_value_pair list" where
  "demo_parse kvs = kvs"

text \<open>What \<open>export\<close> returns for the application \<open>a1\<close> of the example store.\<close>

definition demo_export :: "key_value_pair list exported_app" where
  "demo_export =
     \<lparr>ex_app = \<lparr>app_id = ''a1'', app_name = Some ''Orders'', app_organizationId = ''org1'',
                 app_userId = ''u1'', app_slug = Some ''a1'', app_isPublic = False,
                 app_createdAt = 1, app_updatedAt = 1, app_currentVersionId = Some ''v2''\<rparr>,
      ex_dataQueries = data_queries demo_store,
      ex_dataSources = data_sources demo_store,
      ex_appVersions = app_versions demo_store,
      ex_appEnvironments = app_environments demo_store,
      ex_dataSourceOptions = data_source_options demo_store\<rparr>"

text \<open>
  A snapshot whose version has a Table and a Button, each with a column event that refers
  to the query \<open>q1\<close>.
\<close>

definition table_snapshot :: "key_value_pair list snapshot" where
  "table_snapshot =
     \<lparr>appName = Some ''Tables'', currentVersionId = Some ''v1'',
      appVersions =
        Some [\<lparr>sv_id = ''v1'', sv_name = ''v1'',
               sv_definition =
                 Some \<lparr>components =
                         Some [(''c1'', Some \<lparr>comp_kind = Some ''Table'', comp_events = None,
                                  comp_actions = None,
                                  comp_columns =
                                    Some [\<lparr>col_name = ''id'',
                                           col_events =
                                             Some [\<lparr>eventId = ''onClick'',
                                                    queryId = Some (QueryId ''q1'')\<rparr>]\<rparr>]\<rparr>),
                               (''c2'', Some \<lparr>comp_kind = Some ''Button'', comp_events = None,
                                  comp_actions = None,
                                  comp_columns =
                                    Some [\<lparr>col_name = ''id'',
                                           col_events =
                                             Some [\<lparr>eventId = ''onClick'',
                                                    queryId = Some (QueryId ''q1'')\<rparr>]\<rparr>]\<rparr>)],
                        globalSettings = ''{}''\<rparr>\<rparr>],
      appEnvironments = None,
      dataSources = Some [\<lparr>ss_id = ''s1'', ss_name = ''db'', ss_kind = ''postgresql'',
                          ss_appVersionId = Some ''v1'', ss_options = None\<rparr>],
      dataSourceOptions = None,
      dataQueries = Some [\<lparr>sq_id = ''q1'', sq_name = ''list'', sq_kind = ''postgresql'',
                          sq_dataSourceId = Some ''s1'', sq_options = None\<rparr>]\<rparr>"


subsection \<open>Reading a binding at a position\<close>

text \<open>
  Accessors that read the event binding at a given position of a query's options or of a
  version definition, with the optional chaining of the source: \<open>None\<close> when any link
  on the way is missing. The theorems use them to say which binding they are about.
\<close>

definition nth_opt :: "'a list option \<Rightarrow> nat \<Rightarrow> 'a option" where
  "nth_opt xs i = (case xs of None \<Rightarrow> None | Some l \<Rightarrow> if i < length l then Some (l ! i) else None)"

definition nodeAt :: "app_definition option \<Rightarrow> nat \<Rightarrow> component option" where
  "nodeAt definition j =
     (case definition of
        None \<Rightarrow> None
      | Some d \<Rightarrow> (case nth_opt (components d) j of None \<Rightarrow> None | Some (k, node) \<Rightarrow> node))"

definition kindAt :: "app_definition option \<Rightarrow> nat \<Rightarrow> string option" where
  "kindAt definition j = (case nodeAt definition j of None \<Rightarrow> None | Some c \<Rightarrow> comp_kind c)"



definition columnEventAt :: "app_definition option \<Rightarrow> nat \<Rightarrow> nat \<Rightarrow> nat \<Rightarrow> event option" where
  "columnEventAt definition j a i =
     (case nodeAt definition j of
        None \<Rightarrow> None
      | Some c \<Rightarrow> (case nth_opt (comp_columns c) a of None \<Rightarrow> None | Some col \<Rightarrow> nth_opt (col_events col) i))"



section \<open>Properties\<close>

subsection \<open>What the rewriting does at each position\<close>



lemma replaced_comp_kind:
  "replaceWithinComponent m (Some c) = Some c' \<Longrightarrow> comp_kind c' = comp_kind c"
  by (auto simp: replaceWithinComponent_def Let_def split: option.splits)




lemma replaceWithinComponent_Some:
  "\<exists>c'. replaceWithinComponent m (Some c) = Some c'"
  by (simp add: replaceWithinComponent_def Let_def)

lemma replaceWithinComponent_None [simp]: "replaceWithinComponent m None = None"
  by (simp add: replaceWithinComponent_def)

lemma nodeAt_replace:
  "nodeAt (replaceDataQueryIdWithinDefinitions d m) j = replaceWithinComponent m (nodeAt d j)"
  by (auto simp: nodeAt_def replaceDataQueryIdWithinDefinitions_def nth_opt_def
      split: option.splits prod.splits)

lemma kindAt_replace: "kindAt (replaceDataQueryIdWithinDefinitions d m) j = kindAt d j"
proof (cases "nodeAt d j")
  case None
  then show ?thesis by (simp add: kindAt_def nodeAt_replace)
next
  case (Some c)
  obtain c' where c': "replaceWithinComponent m (Some c) = Some c'"
    using replaceWithinComponent_Some by blast
  with Some show ?thesis by (simp add: kindAt_def nodeAt_replace replaced_comp_kind [OF c'])
qed








lemma replaceQueryId_falsy:
  "\<not> truthy_ref (queryId ev) \<Longrightarrow> replaceQueryId m ev = ev"
  by (simp add: replaceQueryId_def)


subsection \<open>Stores, fresh keys and lists\<close>



lemma fresh_keys_app_id:
  assumes "fresh_keys s" and "r \<in> set (apps s)"
  shows "app_id r \<noteq> uuid s (next_uuid s)"
proof -
  from assms(1) have "uuid s (next_uuid s) \<notin> keys_in_use s"
    by (simp add: fresh_keys_def)
  then have "uuid s (next_uuid s) \<notin> app_id ` set (apps s)"
    by (simp add: keys_in_use_def)
  with assms(2) show ?thesis by (metis imageI)
qed

lemma find_append_fresh:
  "\<forall>r \<in> set xs. \<not> P r \<Longrightarrow> P x \<Longrightarrow> find P (xs @ [x]) = Some x"
  by (induction xs) auto

lemma map_upd_fresh:
  "\<forall>r \<in> set xs. k r \<noteq> k x \<Longrightarrow> map (\<lambda>r. if k r = k x then y else r) (xs @ [x]) = xs @ [y]"
  by (induction xs) auto






lemma createAdminGroupPermissions_frame:
  "apps (snd (createAdminGroupPermissions a s)) = apps s"
  "app_versions (snd (createAdminGroupPermissions a s)) = app_versions s"
  "app_environments (snd (createAdminGroupPermissions a s)) = app_environments s"
  "data_sources (snd (createAdminGroupPermissions a s)) = data_sources s"
  "data_source_options (snd (createAdminGroupPermissions a s)) = data_source_options s"
  "data_queries (snd (createAdminGroupPermissions a s)) = data_queries s"
  "group_permissions (snd (createAdminGroupPermissions a s)) = group_permissions s"
  by (simp_all add: createAdminGroupPermissions_def insert_app_group_permission_def Let_def
      split: list.splits)

subsection \<open>The second loop over the versions\<close>



















subsection \<open>The first loop over the versions\<close>









subsection \<open>The whole import of an object\<close>



lemma buildImportedAppAssociations_no_versions:
  "or_empty (appVersions p) = [] \<Longrightarrow> buildImportedAppAssociations parse a p s = Inr s"
  by (simp add: buildImportedAppAssociations_def setEditingVersionAsLatestVersion_def)



subsection \<open>What the import stores as a version's definition\<close>































subsection \<open>The example store and the evaluation of the examples\<close>

lemma demo_uuid_inj: "inj demo_uuid"
  by (simp add: inj_def demo_uuid_def)

lemma demo_uuid_prefix: "demo_uuid k = CHR ''n'' # CHR ''e'' # CHR ''w'' # CHR ''-'' # replicate k (CHR ''i'')"
  by (simp add: demo_uuid_def)

lemma demo_store_fresh: "fresh_keys demo_store"
proof -
  have "inj_on (uuid demo_store) {next_uuid demo_store ..}"
    using demo_uuid_inj by (simp add: demo_store_def inj_on_def inj_def)
  moreover have "\<forall>k. uuid demo_store k \<notin> keys_in_use demo_store"
    by (simp add: demo_store_def keys_in_use_def List.map_filter_def demo_uuid_prefix)
  ultimately show ?thesis by (simp add: fresh_keys_def)
qed

lemmas import_defs =
  import_app_def dbTransactionWrap_def importTransaction_def createImportedAppForUser_def
  buildImportedAppAssociations_def createAppVersion_def associateAppVersion_def
  associateAppEnvironment_def associateDataSource_def createLegacyDataSourceOptions_def
  associateDataSourceOptions_def createDataQuery_def remapDataQuery_def
  remapVersionDefinition_def setEditingVersionAsLatestVersion_def createAdminGroupPermissions_def
  insert_app_def insert_app_version_def insert_app_environment_def insert_data_source_def
  insert_data_source_options_def insert_data_query_def insert_app_group_permission_def
  save_app_def save_app_version_def save_data_query_def update_app_currentVersionId_def
  update_app_version_updatedAt_def or_empty_def lookup_def truthy_def truthy_ref_def
  dict_read_def property_key_def object_prototype_members_def replaceQueryId_def replaceEvents_def
  replaceWithinComponent_def
  convertToArrayOfKeyValuePairs_def replaceDataQueryIdWithinDefinitions_def
  replaceDataQueryOptionsWithNewDataQueryIds_def Let_def

lemmas demo_defs =
  demo_store_def demo_user_def demo_uuid_def demo_parse_def





subsection \<open>Input that is not an object\<close>

lemma import_rejects_non_object_types:
  "typeof appParams \<noteq> ''object'' \<Longrightarrow>
     import_app parse user appParams s =
       (Inl (BadRequestException ''Invalid params for app import''), s)"
  by (simp add: import_app_def)

text \<open>
  C4: an input value that is not a structured object makes the import fail with the
  Invalid Input error before any entity is created. The guard of \<open>import\<close> compares
  \<open>typeof appParams\<close> with \<open>'object'\<close>, and \<open>typeof null\<close> is \<open>'object'\<close>: \<open>null\<close>
  passes the guard, and the import fails inside the transaction, with the TypeError of
  reading \<open>appParams.name\<close>, not with the Invalid Input error. Nothing is created: the
  store is unchanged.
\<close>

theorem import_null_is_TypeError:
  "import_app demo_parse demo_user JNull demo_store = (Inl TypeError, demo_store)"
  by (simp add: import_app_def dbTransactionWrap_def importTransaction_def
      createImportedAppForUser_def)

subsection \<open>Export of an application of another organization\<close>

text \<open>
  C5 reads: when the application does not belong to the requesting user's organization,
  export fails with a NotFound error. The service raises no such error: the query finds
  no application and reading \<open>appToExport.id\<close> throws a TypeError, as for the
  application \<open>a1\<close> of \<open>org1\<close> requested by a user of \<open>org2\<close>.
\<close>

theorem export_foreign_app_not_NotFound:
  "export_app demo_optionsQuery other_user ''a1'' demo_store = Inl TypeError
   \<and> export_app demo_optionsQuery other_user ''a1'' demo_store \<noteq> Inl NotFoundException"
  by (simp add: export_app_def dbTransactionWrap_def demo_store_def other_user_def)

text \<open>
  C5, amended: for every export request where no application with the given id belongs to
  the requesting user's organization, export fails, and the failure is the TypeError of
  reading the id of the application that was not found.
\<close>

theorem export_foreign_app_TypeError:
  assumes "\<forall>r \<in> set (apps s). \<not> (app_id r = appId \<and> app_organizationId r = user_organizationId user)"
  shows "export_app optionsQuery user appId s = Inl TypeError"
proof -
  have "find (\<lambda>r. app_id r = appId \<and> app_organizationId r = user_organizationId user) (apps s) = None"
    using assms by (simp add: find_None_iff)
  then show ?thesis
    by (simp add: export_app_def dbTransactionWrap_def)
qed

theorem export_unknown_app_witness:
  "export_app demo_optionsQuery demo_user ''a9'' demo_store = Inl TypeError"
proof -
  have h: "\<forall>r \<in> set (apps demo_store).
      \<not> (app_id r = ''a9'' \<and> app_organizationId r = user_organizationId demo_user)"
    by (simp add: demo_store_def)
  from export_foreign_app_TypeError [OF h] show ?thesis .
qed

subsection \<open>Import of a snapshot without versions\<close>

text \<open>
  C10: for every object whose version list is empty or missing, the import succeeds; it
  adds the application and no version, environment, data source, options row or query;
  the update of the latest version's timestamp is skipped (\<open>setEditingVersionAsLatestVersion\<close>
  returns the store as it is); and the application's slug is its own new id.
\<close>

theorem import_without_versions:
  assumes "or_empty (appVersions p) = []" and "fresh_keys s"
  shows "\<exists>s'. import_app parse user (JObject p) s =
           (Inr \<lparr>app_id = uuid s (next_uuid s), app_name = appName p,
                 app_organizationId = user_organizationId user, app_userId = user_id user,
                 app_slug = Some (uuid s (next_uuid s)), app_isPublic = False,
                 app_createdAt = clock s, app_updatedAt = clock s,
                 app_currentVersionId = None\<rparr>, s')
         \<and> apps s' = apps s @ [\<lparr>app_id = uuid s (next_uuid s), app_name = appName p,
                 app_organizationId = user_organizationId user, app_userId = user_id user,
                 app_slug = Some (uuid s (next_uuid s)), app_isPublic = False,
                 app_createdAt = clock s, app_updatedAt = clock s,
                 app_currentVersionId = None\<rparr>]
         \<and> app_versions s' = app_versions s
         \<and> app_environments s' = app_environments s
         \<and> data_sources s' = data_sources s
         \<and> data_source_options s' = data_source_options s
         \<and> data_queries s' = data_queries s
         \<and> setEditingVersionAsLatestVersion mapping (or_empty (appVersions p)) s = s"
proof -
  define a where "a = \<lparr>app_id = uuid s (next_uuid s), app_name = appName p,
             app_organizationId = user_organizationId user, app_userId = user_id user,
             app_slug = None, app_isPublic = False,
             app_createdAt = clock s, app_updatedAt = clock s,
             app_currentVersionId = None\<rparr>"
  define s1 where "s1 = s\<lparr>apps := apps s @ [a], next_uuid := Suc (next_uuid s)\<rparr>"
  define s2 where "s2 = snd (createAdminGroupPermissions a s1)"
  define saved where "saved = a\<lparr>app_slug := Some (app_id a)\<rparr>"
  have create: "createImportedAppForUser (JObject p) user s = Inr (a, s1)"
    by (simp add: createImportedAppForUser_def insert_app_def Let_def a_def s1_def)
  have txn: "importTransaction parse user (JObject p) s = Inr (a, s2)"
    by (simp add: importTransaction_def create s2_def
        buildImportedAppAssociations_no_versions [OF assms(1)])
  have apps2: "apps s2 = apps s @ [a]"
    by (simp add: s2_def createAdminGroupPermissions_frame s1_def)
  have fresh: "\<forall>r \<in> set (apps s). app_id r \<noteq> app_id a"
    using fresh_keys_app_id [OF assms(2)] by (simp add: a_def)
  have found: "find (\<lambda>r. app_id r = app_id a) (apps s2) = Some a"
    unfolding apps2 using fresh by (intro find_append_fresh) auto
  have imp: "import_app parse user (JObject p) s = (Inr saved, save_app saved s2)"
    by (simp add: import_app_def dbTransactionWrap_def txn found saved_def Let_def)
  have sid: "app_id saved = app_id a"
    by (simp add: saved_def)
  have apps3: "apps (save_app saved s2) = apps s @ [saved]"
    using map_upd_fresh [of "apps s" app_id a saved] fresh
    by (simp add: save_app_def apps2 sid)
  have rest: "app_versions (save_app saved s2) = app_versions s"
    "app_environments (save_app saved s2) = app_environments s"
    "data_sources (save_app saved s2) = data_sources s"
    "data_source_options (save_app saved s2) = data_source_options s"
    "data_queries (save_app saved s2) = data_queries s"
    by (simp_all add: save_app_def s2_def createAdminGroupPermissions_frame s1_def)
  have saved_eq: "saved = \<lparr>app_id = uuid s (next_uuid s), app_name = appName p,
                 app_organizationId = user_organizationId user, app_userId = user_id user,
                 app_slug = Some (uuid s (next_uuid s)), app_isPublic = False,
                 app_createdAt = clock s, app_updatedAt = clock s,
                 app_currentVersionId = None\<rparr>"
    by (simp add: saved_def a_def)
  have touch: "setEditingVersionAsLatestVersion mapping (or_empty (appVersions p)) s = s"
    by (simp add: setEditingVersionAsLatestVersion_def assms(1))
  show ?thesis
    using imp apps3 rest touch unfolding saved_eq by blast
qed

theorem import_without_versions_witness:
  "\<exists>s'. import_app demo_parse demo_user (JObject empty_snapshot) demo_store =
           (Inr \<lparr>app_id = ''new-'', app_name = None,
                 app_organizationId = ''org1'', app_userId = ''u1'',
                 app_slug = Some ''new-'', app_isPublic = False,
                 app_createdAt = 5, app_updatedAt = 5,
                 app_currentVersionId = None\<rparr>, s')
         \<and> app_versions s' = app_versions demo_store
         \<and> app_environments s' = app_environments demo_store
         \<and> data_sources s' = data_sources demo_store
         \<and> data_source_options s' = data_source_options demo_store
         \<and> data_queries s' = data_queries demo_store"
proof -
  have h: "or_empty (appVersions (empty_snapshot :: key_value_pair list snapshot)) = []"
    by (simp add: empty_snapshot_def or_empty_def)
  have k: "uuid demo_store (next_uuid demo_store) = ''new-''"
    by (simp add: demo_store_def demo_uuid_def)
  have c: "clock demo_store = 5"
    by (simp add: demo_store_def)
  have u: "user_organizationId demo_user = ''org1''" "user_id demo_user = ''u1''"
    by (simp_all add: demo_user_def)
  have nm: "appName (empty_snapshot :: key_value_pair list snapshot) = None"
    by (simp add: empty_snapshot_def)
  from import_without_versions [OF h demo_store_fresh, of demo_parse demo_user Map.empty]
  show ?thesis
    unfolding k c u nm by blast
qed

subsection \<open>The grant for the first admin group\<close>



subsection \<open>The default environment of a snapshot without environments\<close>



subsection \<open>The current version\<close>




subsection \<open>The options row of a legacy data source\<close>

text \<open>
  C3: for the legacy snapshot (no standalone options, one data source with inline
  options) the import creates one options row, bound to the default environment
  synthesized for the version and holding the converted options. The row's
  \<open>dataSourceId\<close> is \<open>source.id\<close>, the identifier \<open>s1\<close> of the snapshot, and not the key
  \<open>new-iii\<close> of the data source the import created, which the claim requires; the loop
  for standalone options and the loop for queries go through \<open>dataSourceMapping\<close>.
\<close>

theorem legacy_options_row_keeps_old_source_id:
  "data_source_options
     (snd (import_app demo_parse demo_user (JObject legacy_snapshot) demo_store)) =
     data_source_options demo_store @
       [\<lparr>dso_id = ''new-iiii'', dso_environmentId = Some ''new-ii'',
         dso_dataSourceId = Some ''s1'', dso_dataSource = None,
         dso_options = Some [\<lparr>kv_key = ''host'', kv_value = ''a'', kv_encrypted = False\<rparr>],
         dso_createdAt = 5, dso_updatedAt = 5\<rparr>]
   \<and> data_sources
       (snd (import_app demo_parse demo_user (JObject legacy_snapshot) demo_store)) =
     data_sources demo_store @
       [\<lparr>ds_id = ''new-iii'', ds_name = ''db'', ds_kind = ''postgresql'',
         ds_appVersionId = Some ''new-i'', ds_createdAt = 5\<rparr>]"
  by (simp add: import_defs demo_defs legacy_snapshot_def)

subsection \<open>Export followed by import\<close>

lemma demo_export_eval:
  "export_app demo_optionsQuery demo_user ''a1'' demo_store = Inr demo_export"
  by (simp add: export_app_def dbTransactionWrap_def demo_optionsQuery_def demo_store_def
      demo_user_def demo_export_def is_in_def Let_def)

text \<open>
  C1: the application \<open>a1\<close> is exported with two versions, two environments, one data
  source and one query. The import of that snapshot creates two versions and one data
  source, but four environments and two queries: the loops over the environments and
  over the queries run once for every version and do not select the entries of the
  version at hand, as the loop over the data sources does.
\<close>

theorem roundtrip_duplicates_environments_and_queries:
  "export_app demo_optionsQuery demo_user ''a1'' demo_store = Inr demo_export
   \<and> (length (ex_appVersions demo_export), length (ex_appEnvironments demo_export),
      length (ex_dataSources demo_export), length (ex_dataQueries demo_export)) = (2, 2, 1, 1)
   \<and> map av_id
       (app_versions (snd (import_app demo_parse demo_user (JObject (to_snapshot demo_export)) demo_store)))
     = [''v1'', ''v2'', ''new-i'', ''new-ii'']
   \<and> map ae_appVersionId
       (app_environments (snd (import_app demo_parse demo_user (JObject (to_snapshot demo_export)) demo_store)))
     = [Some ''v1'', Some ''v2'', Some ''new-i'', Some ''new-ii'', Some ''new-i'', Some ''new-ii'']
   \<and> map ds_appVersionId
       (data_sources (snd (import_app demo_parse demo_user (JObject (to_snapshot demo_export)) demo_store)))
     = [Some ''v1'', Some ''new-i'']
   \<and> map dq_dataSourceId
       (data_queries (snd (import_app demo_parse demo_user (JObject (to_snapshot demo_export)) demo_store)))
     = [Some ''s1'', Some ''new-iiiii'', Some ''new-iiiii'']"
proof -
  have ex: "(length (ex_appVersions demo_export), length (ex_appEnvironments demo_export),
      length (ex_dataSources demo_export), length (ex_dataQueries demo_export)) = (2, 2, 1, 1)"
    by (simp add: demo_export_def demo_store_def)
  have v: "map av_id
       (app_versions (snd (import_app demo_parse demo_user (JObject (to_snapshot demo_export)) demo_store)))
     = [''v1'', ''v2'', ''new-i'', ''new-ii'']"
    by (simp add: import_defs demo_defs to_snapshot_def demo_export_def)
  have e: "map ae_appVersionId
       (app_environments (snd (import_app demo_parse demo_user (JObject (to_snapshot demo_export)) demo_store)))
     = [Some ''v1'', Some ''v2'', Some ''new-i'', Some ''new-ii'', Some ''new-i'', Some ''new-ii'']"
    by (simp add: import_defs demo_defs to_snapshot_def demo_export_def)
  have d: "map ds_appVersionId
       (data_sources (snd (import_app demo_parse demo_user (JObject (to_snapshot demo_export)) demo_store)))
     = [Some ''v1'', Some ''new-i'']"
    by (simp add: import_defs demo_defs to_snapshot_def demo_export_def)
  have q: "map dq_dataSourceId
       (data_queries (snd (import_app demo_parse demo_user (JObject (to_snapshot demo_export)) demo_store)))
     = [Some ''s1'', Some ''new-iiiii'', Some ''new-iiiii'']"
    by (simp add: import_defs demo_defs to_snapshot_def demo_export_def)
  from demo_export_eval ex v e d q show ?thesis by blast
qed

subsection \<open>Column events of Table components\<close>

text \<open>
  The import of the example snapshot, evaluated: the version stored under the new key
  holds the Table's column event with the key of the query the import created, and the
  Button's column event as it was.
\<close>

lemma table_snapshot_stored_definition:
  "map_option (\<lambda>d. (columnEventAt d 0 0 0, columnEventAt d 1 0 0))
     (stored_definition
        (snd (import_app demo_parse demo_user (JObject table_snapshot) demo_store)) ''new-i'')
   = Some (Some \<lparr>eventId = ''onClick'', queryId = Some (QueryId ''new-iiiii'')\<rparr>,
           Some \<lparr>eventId = ''onClick'', queryId = Some (QueryId ''q1'')\<rparr>)"
  by (simp add: import_defs demo_defs table_snapshot_def stored_definition_def
      columnEventAt_def nodeAt_def nth_opt_def)



subsection \<open>Bindings whose query is not in the mapping\<close>



text \<open>
  The same read when the identifier names a member of \<open>Object.prototype\<close>: the binding
  then holds the inherited member.
\<close>

lemma unmapped_constructor_reads_inherited_member:
  "replaceQueryId Map.empty \<lparr>eventId = ''onClick'', queryId = Some (QueryId ''constructor'')\<rparr>
   = \<lparr>eventId = ''onClick'', queryId = Some (Inherited ''constructor'')\<rparr>"
  by (simp add: replaceQueryId_def truthy_ref_def dict_read_def property_key_def
      object_prototype_members_def)



end
